theory Spec2Isabelle
  imports Complex_Main
begin

section \<open>Numbers and parameter records\<close>

text \<open>
  The program is \<^verbatim>\<open>src/lib/mortgageMath.js\<close>. Every quantity of the source is a
  JavaScript number; the model reads them as real numbers and computes exactly, so
  rounding, NaN and the infinite values of the balances and rates are outside of it:
  where a result of the code turns on the rounding of an operation (a test between two
  products that are equal up to rounding, a total accumulated over the months), the
  model does not say what the code returns, and nothing below is stated about such
  results. Counters that the source starts at 0 and only ever
  increments by one (\<^verbatim>\<open>baselineMonths\<close>, \<^verbatim>\<open>totalMonths\<close>, \<^verbatim>\<open>monthsVB\<close>, the \<^verbatim>\<open>month\<close> of
  the investment loop) are natural numbers; the parameters they are compared with
  (\<^verbatim>\<open>maxMonthsSimulated\<close>, \<^verbatim>\<open>investmentTermMonths\<close>, \<^verbatim>\<open>mortgageTermMonths\<close>) stay real,
  as the source takes any number there.

  An optional parameter with a default (\<^verbatim>\<open>maxMonthsSimulated = 1200\<close>) is an option:
  \<open>None\<close> is the absent field.
\<close>

record loan_params =
  mortgageBalance :: real
  mortgageTermMonths :: real
  mortgageRateAnnual :: real
  maxMonthsSimulated :: "real option"

record extra_params = loan_params +
  extraPaymentPerMonth :: real

record vb_params = loan_params +
  helocRateAnnual :: real
  helocChunkAmount :: real
  helocPaymentPerMonth :: real
  repeatChunks :: "bool option"

record all_params = vb_params +
  investmentReturnAnnual :: "real option"

text \<open>
  The parameter object of \<^verbatim>\<open>simulateInvestmentStrategy\<close>; its fields
  \<^verbatim>\<open>extraPaymentPerMonth\<close> and \<^verbatim>\<open>investmentReturnAnnual\<close> carry the prefix \<open>inv_\<close>
  because the names are taken by the records above.
\<close>

record investment_params =
  investmentTermMonths :: real
  inv_extraPaymentPerMonth :: real
  inv_investmentReturnAnnual :: real
  baselineInterest :: real
  bestPaydownInterest :: real

definition capOf :: "real option \<Rightarrow> real" where
  "capOf c = (case c of None \<Rightarrow> 1200 | Some m \<Rightarrow> m)"

definition flagOf :: "bool option \<Rightarrow> bool" where
  "flagOf b = (case b of None \<Rightarrow> False | Some f \<Rightarrow> f)"

definition rateOf :: "real option \<Rightarrow> real" where
  "rateOf r = (case r of None \<Rightarrow> 0 | Some x \<Rightarrow> x)"

text \<open>
  \<^verbatim>\<open>x || 0\<close> on a number: 0 when \<open>x\<close> is falsy (which for a real is \<open>x = 0\<close>), else \<open>x\<close>.
\<close>

definition orZero :: "real \<Rightarrow> real" where
  "orZero x = (if x = 0 then 0 else x)"

section \<open>Result records\<close>

record baseline_result =
  baselineMonthlyPayment :: real
  baselineMonths :: nat
  totalInterestBaseline :: real

text \<open>
  The result of \<^verbatim>\<open>simulateVelocityBanking\<close> spreads the baseline result and adds its own
  fields. Its \<^verbatim>\<open>interestSaved\<close>, \<^verbatim>\<open>timeSavedMonths\<close> and \<^verbatim>\<open>yearsSaved\<close> carry the prefix
  \<open>vb_\<close>: the plain names are the fields of the comparison records below.
\<close>

record vb_result = baseline_result +
  monthsVB :: nat
  totalInterestMortgageVB :: real
  totalInterestHelocVB :: real
  totalInterestVBCombined :: real
  vb_interestSaved :: real
  vb_timeSavedMonths :: int
  vb_yearsSaved :: real

record strategy_totals =
  monthlyPayment :: real
  totalMonths :: nat
  totalInterest :: real

record investment_result =
  inv_totalMonths :: real
  totalInvested :: real
  totalValue :: real
  investmentGains :: real
  netBenefit :: real

section \<open>The single-balance loops\<close>

text \<open>
  The local variables of the two \<^verbatim>\<open>while\<close> loops of \<^verbatim>\<open>computeBaselineMortgage\<close> and
  \<^verbatim>\<open>simulateExtraPaymentStrategy\<close>: the balance, the interest accumulator and the month
  counter.
\<close>

record loop_state =
  balance :: real
  interestSoFar :: real
  monthsSoFar :: nat

text \<open>One pass through the body of the baseline loop (source lines 49 to 57).\<close>

definition baseline_month :: "real \<Rightarrow> real \<Rightarrow> loop_state \<Rightarrow> loop_state" where
  "baseline_month rM baselinePayment s =
    (let months = monthsSoFar s + 1;
         interest = balance s * rM;
         payment = min baselinePayment (balance s + interest);
         principal = payment - interest;
         total = interestSoFar s + interest;
         bal = balance s - principal
     in \<lparr>balance = (if bal < 0 then 0 else bal),
         interestSoFar = total,
         monthsSoFar = months\<rparr>)"

function baseline_loop :: "real \<Rightarrow> real \<Rightarrow> real \<Rightarrow> loop_state \<Rightarrow> loop_state" where
  "baseline_loop cap rM baselinePayment s =
    (if balance s > 0 \<and> real (monthsSoFar s) < cap
     then baseline_loop cap rM baselinePayment (baseline_month rM baselinePayment s)
     else s)"
  by pat_completeness auto
termination
proof (relation "measure (\<lambda>(cap, rM, pay, s). nat \<lceil>cap - real (monthsSoFar s)\<rceil>)")
  fix cap rM pay :: real and s :: loop_state
  assume "0 < balance s \<and> real (monthsSoFar s) < cap"
  then have "\<lceil>cap - real (monthsSoFar s) - 1\<rceil> < \<lceil>cap - real (monthsSoFar s)\<rceil>"
    and "0 < \<lceil>cap - real (monthsSoFar s)\<rceil>"
    by simp_all
  then show "((cap, rM, pay, baseline_month rM pay s), cap, rM, pay, s)
      \<in> measure (\<lambda>(cap, rM, pay, s). nat \<lceil>cap - real (monthsSoFar s)\<rceil>)"
    by (simp add: baseline_month_def Let_def algebra_simps)
qed simp

declare baseline_loop.simps [simp del]

definition computeBaselineMortgage :: "'a loan_params_scheme \<Rightarrow> baseline_result" where
  "computeBaselineMortgage params =
    (let P0 = mortgageBalance params;
         nM = mortgageTermMonths params;
         rM = mortgageRateAnnual params / 12;
         cap = capOf (maxMonthsSimulated params)
     in if P0 \<le> 0 \<or> nM \<le> 0
        then \<lparr>baselineMonthlyPayment = 0, baselineMonths = 0, totalInterestBaseline = 0\<rparr>
        else
          let pay = (if rM > 0 then (P0 * rM) / (1 - (1 + rM) powr (- nM)) else P0 / nM);
              s = baseline_loop cap rM pay \<lparr>balance = P0, interestSoFar = 0, monthsSoFar = 0\<rparr>
          in \<lparr>baselineMonthlyPayment = pay,
              baselineMonths = monthsSoFar s,
              totalInterestBaseline = interestSoFar s\<rparr>)"

text \<open>
  \<^verbatim>\<open>Math.pow(1 + rM, -nM)\<close> is only reached with \<open>rM > 0\<close>, so its base is positive and
  the power is \<open>powr\<close>.
\<close>

text \<open>One pass through the body of the extra-payment loop (source lines 275 to 290).\<close>

definition extra_month :: "real \<Rightarrow> real \<Rightarrow> real \<Rightarrow> loop_state \<Rightarrow> loop_state" where
  "extra_month rM baselinePayment extra s =
    (let months = monthsSoFar s + 1;
         interest = balance s * rM;
         regularPayment = min baselinePayment (balance s + interest);
         principalFromRegular = regularPayment - interest;
         extraPrincipal = min extra (balance s - principalFromRegular);
         totalPrincipalPaid = principalFromRegular + extraPrincipal;
         total = interestSoFar s + interest;
         bal = balance s - totalPrincipalPaid
     in \<lparr>balance = (if bal < 0 then 0 else bal),
         interestSoFar = total,
         monthsSoFar = months\<rparr>)"

function extra_loop :: "real \<Rightarrow> real \<Rightarrow> real \<Rightarrow> real \<Rightarrow> loop_state \<Rightarrow> loop_state" where
  "extra_loop cap rM baselinePayment extra s =
    (if balance s > 0 \<and> real (monthsSoFar s) < cap
     then extra_loop cap rM baselinePayment extra (extra_month rM baselinePayment extra s)
     else s)"
  by pat_completeness auto
termination
proof (relation "measure (\<lambda>(cap, rM, pay, extra, s). nat \<lceil>cap - real (monthsSoFar s)\<rceil>)")
  fix cap rM pay extra :: real and s :: loop_state
  assume "0 < balance s \<and> real (monthsSoFar s) < cap"
  then have "\<lceil>cap - real (monthsSoFar s) - 1\<rceil> < \<lceil>cap - real (monthsSoFar s)\<rceil>"
    and "0 < \<lceil>cap - real (monthsSoFar s)\<rceil>"
    by simp_all
  then show "((cap, rM, pay, extra, extra_month rM pay extra s), cap, rM, pay, extra, s)
      \<in> measure (\<lambda>(cap, rM, pay, extra, s). nat \<lceil>cap - real (monthsSoFar s)\<rceil>)"
    by (simp add: extra_month_def Let_def algebra_simps)
qed simp

declare extra_loop.simps [simp del]

definition simulateExtraPaymentStrategy :: "'a extra_params_scheme \<Rightarrow> strategy_totals" where
  "simulateExtraPaymentStrategy params =
    (let P0 = mortgageBalance params;
         nM = mortgageTermMonths params;
         rM = mortgageRateAnnual params / 12;
         cap = capOf (maxMonthsSimulated params)
     in if P0 \<le> 0 \<or> nM \<le> 0
        then \<lparr>monthlyPayment = 0, totalMonths = 0, totalInterest = 0\<rparr>
        else
          let pay = (if rM > 0 then (P0 * rM) / (1 - (1 + rM) powr (- nM)) else P0 / nM);
              s = extra_loop cap rM pay (extraPaymentPerMonth params)
                    \<lparr>balance = P0, interestSoFar = 0, monthsSoFar = 0\<rparr>
          in \<lparr>monthlyPayment = pay + extraPaymentPerMonth params,
              totalMonths = monthsSoFar s,
              totalInterest = interestSoFar s\<rparr>)"

section \<open>Velocity banking\<close>

text \<open>
  The only exception of the program: the \<^verbatim>\<open>Error\<close> thrown at source line 178, "HELOC
  payment is too low to pay down the balance (negative amortization) ...".
\<close>

datatype error = NegativeAmortization

text \<open>
  The mutable locals of the velocity loop: \<^verbatim>\<open>mortBal\<close>, \<^verbatim>\<open>helocBal\<close>, the accumulators
  \<^verbatim>\<open>totalInterestMortgageVB\<close> (here \<open>interestMortgage\<close>) and \<^verbatim>\<open>totalInterestHelocVB\<close>
  (here \<open>interestHeloc\<close>), and the counter \<^verbatim>\<open>monthsVB\<close> (here \<open>monthCount\<close>).
\<close>

record vb_state =
  mortBal :: real
  helocBal :: real
  interestMortgage :: real
  interestHeloc :: real
  monthCount :: nat

text \<open>
  What the loop reads and never writes: the cap, the two monthly rates \<^verbatim>\<open>rM\<close> and
  \<^verbatim>\<open>rH\<close>, the baseline payment, and three parameters.
\<close>

record vb_consts =
  c_maxMonths :: real
  c_rM :: real
  c_rH :: real
  c_baselinePayment :: real
  c_helocPayment :: real
  c_chunk :: real
  c_repeat :: bool

text \<open>Source lines 157 to 169.\<close>

definition mortgage_step :: "vb_consts \<Rightarrow> vb_state \<Rightarrow> vb_state" where
  "mortgage_step c s =
    (if mortBal s > 0
     then
       let mortInterest = mortBal s * c_rM c;
           total = interestMortgage s + mortInterest;
           mortPaymentThisMonth = min (c_baselinePayment c) (mortBal s + mortInterest);
           mortPrincipalPaid = mortPaymentThisMonth - mortInterest;
           bal = mortBal s - mortPrincipalPaid
       in s\<lparr>mortBal := (if bal < 0 then 0 else bal), interestMortgage := total\<rparr>
     else s)"

text \<open>Source lines 172 to 191; the \<^verbatim>\<open>throw\<close> is the \<open>Inl\<close>.\<close>

definition heloc_step :: "vb_consts \<Rightarrow> vb_state \<Rightarrow> error + vb_state" where
  "heloc_step c s =
    (if helocBal s > 0
     then
       let helocInterest = helocBal s * c_rH c;
           total = interestHeloc s + helocInterest
       in if c_helocPayment c \<le> helocInterest \<and> helocBal s > 1 / 100
          then Inl NegativeAmortization
          else
            let helocPaymentThisMonth = min (c_helocPayment c) (helocBal s + helocInterest);
                helocPrincipalPaid = helocPaymentThisMonth - helocInterest;
                bal = helocBal s - helocPrincipalPaid
            in Inr (s\<lparr>helocBal := (if bal < 0 then 0 else bal), interestHeloc := total\<rparr>)
     else Inr s)"

text \<open>Source lines 194 to 200.\<close>

definition repeat_chunk :: "vb_consts \<Rightarrow> vb_state \<Rightarrow> vb_state" where
  "repeat_chunk c s =
    (if c_repeat c \<and> helocBal s = 0 \<and> mortBal s > 0
     then
       let nextChunk = min (c_chunk c) (mortBal s)
       in if nextChunk > 0
          then s\<lparr>mortBal := mortBal s - nextChunk, helocBal := helocBal s + nextChunk\<rparr>
          else s
     else s)"

text \<open>The whole body of the loop, source lines 154 to 200.\<close>

definition vb_month :: "vb_consts \<Rightarrow> vb_state \<Rightarrow> error + vb_state" where
  "vb_month c s =
    (case heloc_step c (mortgage_step c (s\<lparr>monthCount := monthCount s + 1\<rparr>)) of
       Inl e \<Rightarrow> Inl e
     | Inr s' \<Rightarrow> Inr (repeat_chunk c s'))"

definition vb_continue :: "vb_consts \<Rightarrow> vb_state \<Rightarrow> bool" where
  "vb_continue c s \<longleftrightarrow>
     (mortBal s > 0 \<or> helocBal s > 0) \<and> real (monthCount s) < c_maxMonths c"

function vb_loop :: "vb_consts \<Rightarrow> vb_state \<Rightarrow> error + vb_state" where
  "vb_loop c s =
    (if vb_continue c s
     then (case vb_month c s of Inl e \<Rightarrow> Inl e | Inr s' \<Rightarrow> vb_loop c s')
     else Inr s)"
  by pat_completeness auto
termination
proof (relation "measure (\<lambda>(c, s). nat \<lceil>c_maxMonths c - real (monthCount s)\<rceil>)")
  fix c :: vb_consts and s s' :: vb_state
  assume go: "vb_continue c s" and month: "vb_month c s = Inr s'"
  from month have "monthCount s' = monthCount s + 1"
    by (auto simp: vb_month_def heloc_step_def mortgage_step_def repeat_chunk_def Let_def
        split: sum.splits if_splits)
  moreover from go have "0 < \<lceil>c_maxMonths c - real (monthCount s)\<rceil>"
    by (simp add: vb_continue_def)
  moreover have "\<lceil>c_maxMonths c - real (monthCount s) - 1\<rceil>
      < \<lceil>c_maxMonths c - real (monthCount s)\<rceil>"
    by simp
  ultimately show "((c, s'), c, s)
      \<in> measure (\<lambda>(c, s). nat \<lceil>c_maxMonths c - real (monthCount s)\<rceil>)"
    by (simp add: algebra_simps)
qed simp

declare vb_loop.simps [simp del]

definition simulateVelocityBanking :: "'a vb_params_scheme \<Rightarrow> error + vb_result" where
  "simulateVelocityBanking params =
    (let cap = capOf (maxMonthsSimulated params);
         rep = flagOf (repeatChunks params);
         baseline = computeBaselineMortgage
           \<lparr>mortgageBalance = mortgageBalance params,
            mortgageTermMonths = mortgageTermMonths params,
            mortgageRateAnnual = mortgageRateAnnual params,
            maxMonthsSimulated = Some cap\<rparr>
     in if helocChunkAmount params \<le> 0
        then Inr
          \<lparr>baselineMonthlyPayment = baselineMonthlyPayment baseline,
           baselineMonths = baselineMonths baseline,
           totalInterestBaseline = totalInterestBaseline baseline,
           monthsVB = baselineMonths baseline,
           totalInterestMortgageVB = totalInterestBaseline baseline,
           totalInterestHelocVB = 0,
           totalInterestVBCombined = totalInterestBaseline baseline,
           vb_interestSaved = 0,
           vb_timeSavedMonths = 0,
           vb_yearsSaved = 0\<rparr>
        else
          let P0 = mortgageBalance params;
              rM = mortgageRateAnnual params / 12;
              rH = helocRateAnnual params / 12;
              initialChunk = min (helocChunkAmount params) P0;
              consts = \<lparr>c_maxMonths = cap, c_rM = rM, c_rH = rH,
                        c_baselinePayment = baselineMonthlyPayment baseline,
                        c_helocPayment = helocPaymentPerMonth params,
                        c_chunk = helocChunkAmount params,
                        c_repeat = rep\<rparr>;
              start = \<lparr>mortBal = P0 - initialChunk, helocBal = 0 + initialChunk,
                       interestMortgage = 0, interestHeloc = 0, monthCount = 0\<rparr>
          in case vb_loop consts start of
               Inl e \<Rightarrow> Inl e
             | Inr s \<Rightarrow>
                 let combined = interestMortgage s + interestHeloc s;
                     saved = totalInterestBaseline baseline - combined;
                     timeSaved = int (baselineMonths baseline) - int (monthCount s)
                 in Inr
                   \<lparr>baselineMonthlyPayment = baselineMonthlyPayment baseline,
                    baselineMonths = baselineMonths baseline,
                    totalInterestBaseline = totalInterestBaseline baseline,
                    monthsVB = monthCount s,
                    totalInterestMortgageVB = interestMortgage s,
                    totalInterestHelocVB = interestHeloc s,
                    totalInterestVBCombined = combined,
                    vb_interestSaved = saved,
                    vb_timeSavedMonths = timeSaved,
                    vb_yearsSaved = real_of_int timeSaved / 12\<rparr>)"

text \<open>
  The source calls \<^verbatim>\<open>computeBaselineMortgage\<close> with the same four arguments in both
  branches of the test on \<^verbatim>\<open>helocChunkAmount\<close>; the model binds the call once, before
  the test.
\<close>

text \<open>The constants and the first state that \<^verbatim>\<open>simulateVelocityBanking\<close> gives its loop.\<close>

definition vb_consts_of :: "'a vb_params_scheme \<Rightarrow> vb_consts" where
  "vb_consts_of params =
    \<lparr>c_maxMonths = capOf (maxMonthsSimulated params),
     c_rM = mortgageRateAnnual params / 12,
     c_rH = helocRateAnnual params / 12,
     c_baselinePayment = baselineMonthlyPayment (computeBaselineMortgage
        \<lparr>mortgageBalance = mortgageBalance params,
         mortgageTermMonths = mortgageTermMonths params,
         mortgageRateAnnual = mortgageRateAnnual params,
         maxMonthsSimulated = Some (capOf (maxMonthsSimulated params))\<rparr>),
     c_helocPayment = helocPaymentPerMonth params,
     c_chunk = helocChunkAmount params,
     c_repeat = flagOf (repeatChunks params)\<rparr>"

definition vb_start_of :: "'a vb_params_scheme \<Rightarrow> vb_state" where
  "vb_start_of params =
    \<lparr>mortBal = mortgageBalance params - min (helocChunkAmount params) (mortgageBalance params),
     helocBal = 0 + min (helocChunkAmount params) (mortgageBalance params),
     interestMortgage = 0, interestHeloc = 0, monthCount = 0\<rparr>"

section \<open>Investing the extra payment\<close>

text \<open>
  The \<^verbatim>\<open>for\<close> loop of source lines 348 to 354, on the pair (\<^verbatim>\<open>totalValue\<close>,
  \<^verbatim>\<open>totalInvested\<close>): it runs while \<^verbatim>\<open>month <= investmentTermMonths\<close>.
\<close>

function invest_loop :: "real \<Rightarrow> real \<Rightarrow> real \<Rightarrow> nat \<Rightarrow> real \<times> real \<Rightarrow> real \<times> real" where
  "invest_loop h contribution monthlyReturn month (value, invested) =
    (if real month \<le> h
     then invest_loop h contribution monthlyReturn (Suc month)
            (value * (1 + monthlyReturn) + contribution, invested + contribution)
     else (value, invested))"
  by pat_completeness auto
termination
  by (relation "measure (\<lambda>(h, c, r, month, acc). nat (\<lfloor>h\<rfloor> + 1 - int month))")
     (simp_all add: le_floor_iff)

declare invest_loop.simps [simp del]

definition simulateInvestmentStrategy :: "investment_params \<Rightarrow> investment_result" where
  "simulateInvestmentStrategy params =
    (let h = investmentTermMonths params;
         c = inv_extraPaymentPerMonth params
     in if c = 0 \<or> c \<le> 0 \<or> h = 0 \<or> h \<le> 0
        then \<lparr>inv_totalMonths = orZero h, totalInvested = 0, totalValue = 0,
              investmentGains = 0, netBenefit = 0\<rparr>
        else
          let monthlyReturn = inv_investmentReturnAnnual params / 12;
              final = invest_loop h c monthlyReturn 1 (0, 0);
              gains = fst final - snd final;
              interestSavedByBestPaydown = baselineInterest params - bestPaydownInterest params
          in \<lparr>inv_totalMonths = h, totalInvested = snd final, totalValue = fst final,
              investmentGains = gains,
              netBenefit = gains - interestSavedByBestPaydown\<rparr>)"

section \<open>Comparing the strategies\<close>

record comparison =
  interestSaved :: real
  timeSavedMonths :: int
  yearsSaved :: real

text \<open>
  The object \<^verbatim>\<open>velocity\<close> of source line 440; its \<^verbatim>\<open>totalMonths\<close> and \<^verbatim>\<open>totalInterest\<close>
  carry the prefix \<open>vel_\<close>.
\<close>

record velocity_summary =
  vel_totalMonths :: nat
  vel_totalInterest :: real
  mortgageInterest :: real
  helocInterest :: real

text \<open>
  The fields \<^verbatim>\<open>data\<close> and \<^verbatim>\<open>comparison\<close> of a selected strategy hold objects of
  different shapes, depending on the strategy.
\<close>

datatype strategy_data =
  ExtraData strategy_totals
| VelocityData velocity_summary
| InvestmentData investment_result

datatype strategy_comparison =
  PaydownComparison comparison
| InvestmentComparison real

record best_strategy =
  name :: string
  data :: strategy_data
  comparison :: strategy_comparison
  color :: string

record best_overall = best_strategy +
  kind :: string

record comparisons =
  extraVsBaseline :: comparison
  velocityVsBaseline :: comparison
  velocityVsExtra :: comparison
  investmentVsBestPaydown :: real

record report =
  baseline :: strategy_totals
  extraPayment :: strategy_totals
  velocity :: velocity_summary
  investment :: investment_result
  bestPaydownStrategy :: best_strategy
  bestOverallStrategy :: best_overall
  comparisons :: comparisons

text \<open>
  \<open>kind\<close> is the field \<^verbatim>\<open>type\<close> of \<^verbatim>\<open>bestOverallStrategy\<close>, and \<open>investmentVsBestPaydown\<close>
  holds the one field \<^verbatim>\<open>netBenefit\<close> of that object. The number of months of a
  selected strategy, as source line 486 reads it from \<^verbatim>\<open>bestPaydownData.data\<close>:
\<close>

fun data_totalMonths :: "strategy_data \<Rightarrow> real" where
  "data_totalMonths (ExtraData e) = real (totalMonths e)"
| "data_totalMonths (VelocityData v) = real (vel_totalMonths v)"
| "data_totalMonths (InvestmentData i) = inv_totalMonths i"

fun data_totalInterest :: "strategy_data \<Rightarrow> real" where
  "data_totalInterest (ExtraData e) = totalInterest e"
| "data_totalInterest (VelocityData v) = vel_totalInterest v"
| "data_totalInterest (InvestmentData i) = 0"

text \<open>
  An investment result has no \<^verbatim>\<open>totalInterest\<close>; the source never reads it from one,
  since \<^verbatim>\<open>bestPaydownData.data\<close> is one of the two paydown objects.
\<close>

definition simulateAllStrategies :: "'a all_params_scheme \<Rightarrow> error + report" where
  "simulateAllStrategies params =
    (let rep = flagOf (repeatChunks params);
         investReturn = rateOf (investmentReturnAnnual params);
         cap = capOf (maxMonthsSimulated params);
         baselineR = computeBaselineMortgage
           \<lparr>mortgageBalance = mortgageBalance params,
            mortgageTermMonths = mortgageTermMonths params,
            mortgageRateAnnual = mortgageRateAnnual params,
            maxMonthsSimulated = Some cap\<rparr>;
         extraR = simulateExtraPaymentStrategy
           \<lparr>mortgageBalance = mortgageBalance params,
            mortgageTermMonths = mortgageTermMonths params,
            mortgageRateAnnual = mortgageRateAnnual params,
            maxMonthsSimulated = Some cap,
            extraPaymentPerMonth = orZero (helocPaymentPerMonth params)\<rparr>
     in case simulateVelocityBanking
           \<lparr>mortgageBalance = mortgageBalance params,
            mortgageTermMonths = mortgageTermMonths params,
            mortgageRateAnnual = mortgageRateAnnual params,
            maxMonthsSimulated = Some cap,
            helocRateAnnual = helocRateAnnual params,
            helocChunkAmount = orZero (helocChunkAmount params),
            helocPaymentPerMonth = orZero (helocPaymentPerMonth params),
            repeatChunks = Some rep\<rparr> of
          Inl e \<Rightarrow> Inl e
        | Inr velocityResult \<Rightarrow>
            let velocityS =
                  \<lparr>vel_totalMonths = monthsVB velocityResult,
                   vel_totalInterest = totalInterestVBCombined velocityResult,
                   mortgageInterest = totalInterestMortgageVB velocityResult,
                   helocInterest = totalInterestHelocVB velocityResult\<rparr>;
                extraVsBase =
                  \<lparr>interestSaved = totalInterestBaseline baselineR - totalInterest extraR,
                   timeSavedMonths = int (baselineMonths baselineR) - int (totalMonths extraR),
                   yearsSaved =
                     real_of_int (int (baselineMonths baselineR) - int (totalMonths extraR)) / 12\<rparr>;
                velocityVsBase =
                  \<lparr>interestSaved = totalInterestBaseline baselineR - vel_totalInterest velocityS,
                   timeSavedMonths = int (baselineMonths baselineR) - int (vel_totalMonths velocityS),
                   yearsSaved =
                     real_of_int (int (baselineMonths baselineR) - int (vel_totalMonths velocityS)) / 12\<rparr>;
                velocityVsExtraC =
                  \<lparr>interestSaved = totalInterest extraR - vel_totalInterest velocityS,
                   timeSavedMonths = int (totalMonths extraR) - int (vel_totalMonths velocityS),
                   yearsSaved =
                     real_of_int (int (totalMonths extraR) - int (vel_totalMonths velocityS)) / 12\<rparr>;
                bestPaydownData =
                  (if interestSaved velocityVsBase > interestSaved extraVsBase
                   then \<lparr>name = ''Velocity Banking'', data = VelocityData velocityS,
                         comparison = PaydownComparison velocityVsBase, color = ''velocity''\<rparr>
                   else \<lparr>name = ''Extra Payment'', data = ExtraData extraR,
                         comparison = PaydownComparison extraVsBase, color = ''extra''\<rparr>);
                investmentR = simulateInvestmentStrategy
                  \<lparr>investmentTermMonths = data_totalMonths (data bestPaydownData),
                   inv_extraPaymentPerMonth = orZero (helocPaymentPerMonth params),
                   inv_investmentReturnAnnual = orZero investReturn,
                   baselineInterest = totalInterestBaseline baselineR,
                   bestPaydownInterest = data_totalInterest (data bestPaydownData)\<rparr>;
                investmentVsBest = netBenefit investmentR;
                bestOverall =
                  (if netBenefit investmentR > 0
                   then \<lparr>name = ''Investment Strategy'', data = InvestmentData investmentR,
                         comparison = InvestmentComparison investmentVsBest,
                         color = ''investment'', kind = ''investment''\<rparr>
                   else \<lparr>name = name bestPaydownData, data = data bestPaydownData,
                         comparison = comparison bestPaydownData,
                         color = color bestPaydownData, kind = ''paydown''\<rparr>)
            in Inr
              \<lparr>baseline =
                 \<lparr>monthlyPayment = baselineMonthlyPayment baselineR,
                  totalMonths = baselineMonths baselineR,
                  totalInterest = totalInterestBaseline baselineR\<rparr>,
               extraPayment =
                 \<lparr>monthlyPayment = monthlyPayment extraR,
                  totalMonths = totalMonths extraR,
                  totalInterest = totalInterest extraR\<rparr>,
               velocity = velocityS,
               investment = investmentR,
               bestPaydownStrategy = bestPaydownData,
               bestOverallStrategy = bestOverall,
               comparisons =
                 \<lparr>extraVsBaseline = extraVsBase,
                  velocityVsBaseline = velocityVsBase,
                  velocityVsExtra = velocityVsExtraC,
                  investmentVsBestPaydown = investmentVsBest\<rparr>\<rparr>)"

section \<open>Any cap the source can receive\<close>

text \<open>
  The loops above take a cap that is a real number and count the months in the natural
  numbers. In the source the cap is any number, \<^verbatim>\<open>Infinity\<close> included, and the counter is
  a number too: \<^verbatim>\<open>monthsVB++\<close> adds one exactly up to \<open>2 ^ 53\<close> and leaves \<open>2 ^ 53\<close> as it
  is, since \<open>2 ^ 53 + 1\<close> is rounded back to it. With such a cap a loop need not end, so
  the definitions of this section are partial: \<open>None\<close> is a call that does not return.
  They take the cap as an argument of their own, \<open>None\<close> for the absent field, and do
  not read the field \<open>maxMonthsSimulated\<close> of the record they are given. The arithmetic
  of a month is that of the definitions above; only the counter and the test on the cap
  differ. For a finite cap of at most \<open>2 ^ 53\<close> they return what the total definitions
  return (\<open>computeBaselineMortgage_finite\<close>, \<open>simulateExtraPaymentStrategy_finite\<close> and
  \<open>simulateVelocityBanking_finite\<close> below).
\<close>

datatype month_cap = Finite real | Infinity

text \<open>
  The test \<^verbatim>\<open>months < maxMonthsSimulated\<close>. A cap that is not a number, or minus
  infinity, fails the test at once, as the finite cap 0 does.
\<close>

fun below_cap :: "nat \<Rightarrow> month_cap \<Rightarrow> bool" where
  "below_cap m (Finite c) \<longleftrightarrow> real m < c"
| "below_cap m Infinity \<longleftrightarrow> True"

definition anyCapOf :: "month_cap option \<Rightarrow> month_cap" where
  "anyCapOf c = (case c of None \<Rightarrow> Finite 1200 | Some m \<Rightarrow> m)"

text \<open>The increment \<^verbatim>\<open>months++\<close> of a counter that is a double.\<close>

definition count_up :: "nat \<Rightarrow> nat" where
  "count_up m = (if m < 2 ^ 53 then m + 1 else m)"

definition baseline_month_sat :: "real \<Rightarrow> real \<Rightarrow> loop_state \<Rightarrow> loop_state" where
  "baseline_month_sat rM baselinePayment s =
     (baseline_month rM baselinePayment s)\<lparr>monthsSoFar := count_up (monthsSoFar s)\<rparr>"

partial_function (option) baseline_run ::
    "month_cap \<Rightarrow> real \<Rightarrow> real \<Rightarrow> loop_state \<Rightarrow> loop_state option" where
  "baseline_run cap rM baselinePayment s =
    (if balance s > 0 \<and> below_cap (monthsSoFar s) cap
     then baseline_run cap rM baselinePayment (baseline_month_sat rM baselinePayment s)
     else Some s)"

definition computeBaselineMortgage_anyCap ::
    "month_cap option \<Rightarrow> 'a loan_params_scheme \<Rightarrow> baseline_result option" where
  "computeBaselineMortgage_anyCap maxMonths params =
    (let P0 = mortgageBalance params;
         nM = mortgageTermMonths params;
         rM = mortgageRateAnnual params / 12;
         cap = anyCapOf maxMonths
     in if P0 \<le> 0 \<or> nM \<le> 0
        then Some \<lparr>baselineMonthlyPayment = 0, baselineMonths = 0, totalInterestBaseline = 0\<rparr>
        else
          let pay = (if rM > 0 then (P0 * rM) / (1 - (1 + rM) powr (- nM)) else P0 / nM)
          in case baseline_run cap rM pay \<lparr>balance = P0, interestSoFar = 0, monthsSoFar = 0\<rparr> of
               None \<Rightarrow> None
             | Some s \<Rightarrow> Some
                 \<lparr>baselineMonthlyPayment = pay,
                  baselineMonths = monthsSoFar s,
                  totalInterestBaseline = interestSoFar s\<rparr>)"

definition extra_month_sat :: "real \<Rightarrow> real \<Rightarrow> real \<Rightarrow> loop_state \<Rightarrow> loop_state" where
  "extra_month_sat rM baselinePayment extra s =
     (extra_month rM baselinePayment extra s)\<lparr>monthsSoFar := count_up (monthsSoFar s)\<rparr>"

partial_function (option) extra_run ::
    "month_cap \<Rightarrow> real \<Rightarrow> real \<Rightarrow> real \<Rightarrow> loop_state \<Rightarrow> loop_state option" where
  "extra_run cap rM baselinePayment extra s =
    (if balance s > 0 \<and> below_cap (monthsSoFar s) cap
     then extra_run cap rM baselinePayment extra (extra_month_sat rM baselinePayment extra s)
     else Some s)"

definition simulateExtraPaymentStrategy_anyCap ::
    "month_cap option \<Rightarrow> 'a extra_params_scheme \<Rightarrow> strategy_totals option" where
  "simulateExtraPaymentStrategy_anyCap maxMonths params =
    (let P0 = mortgageBalance params;
         nM = mortgageTermMonths params;
         rM = mortgageRateAnnual params / 12;
         cap = anyCapOf maxMonths
     in if P0 \<le> 0 \<or> nM \<le> 0
        then Some \<lparr>monthlyPayment = 0, totalMonths = 0, totalInterest = 0\<rparr>
        else
          let pay = (if rM > 0 then (P0 * rM) / (1 - (1 + rM) powr (- nM)) else P0 / nM)
          in case extra_run cap rM pay (extraPaymentPerMonth params)
                    \<lparr>balance = P0, interestSoFar = 0, monthsSoFar = 0\<rparr> of
               None \<Rightarrow> None
             | Some s \<Rightarrow> Some
                 \<lparr>monthlyPayment = pay + extraPaymentPerMonth params,
                  totalMonths = monthsSoFar s,
                  totalInterest = interestSoFar s\<rparr>)"

definition vb_month_sat :: "vb_consts \<Rightarrow> vb_state \<Rightarrow> error + vb_state" where
  "vb_month_sat c s =
    (case heloc_step c (mortgage_step c (s\<lparr>monthCount := count_up (monthCount s)\<rparr>)) of
       Inl e \<Rightarrow> Inl e
     | Inr s' \<Rightarrow> Inr (repeat_chunk c s'))"

partial_function (option) vb_run ::
    "month_cap \<Rightarrow> vb_consts \<Rightarrow> vb_state \<Rightarrow> (error + vb_state) option" where
  "vb_run cap c s =
    (if (mortBal s > 0 \<or> helocBal s > 0) \<and> below_cap (monthCount s) cap
     then (case vb_month_sat c s of Inl e \<Rightarrow> Some (Inl e) | Inr s' \<Rightarrow> vb_run cap c s')
     else Some (Inr s))"

text \<open>
  The loop \<open>vb_run\<close> has the cap as its first argument; it does not read \<open>c_maxMonths\<close>,
  which is set to 0 here.
\<close>

definition simulateVelocityBanking_anyCap ::
    "month_cap option \<Rightarrow> 'a vb_params_scheme \<Rightarrow> (error + vb_result) option" where
  "simulateVelocityBanking_anyCap maxMonths params =
    (let cap = anyCapOf maxMonths;
         rep = flagOf (repeatChunks params)
     in case computeBaselineMortgage_anyCap (Some cap) params of
          None \<Rightarrow> None
        | Some base \<Rightarrow>
           (if helocChunkAmount params \<le> 0
            then Some (Inr
              \<lparr>baselineMonthlyPayment = baselineMonthlyPayment base,
               baselineMonths = baselineMonths base,
               totalInterestBaseline = totalInterestBaseline base,
               monthsVB = baselineMonths base,
               totalInterestMortgageVB = totalInterestBaseline base,
               totalInterestHelocVB = 0,
               totalInterestVBCombined = totalInterestBaseline base,
               vb_interestSaved = 0,
               vb_timeSavedMonths = 0,
               vb_yearsSaved = 0\<rparr>)
            else
              let P0 = mortgageBalance params;
                  rM = mortgageRateAnnual params / 12;
                  rH = helocRateAnnual params / 12;
                  initialChunk = min (helocChunkAmount params) P0;
                  consts = \<lparr>c_maxMonths = 0, c_rM = rM, c_rH = rH,
                            c_baselinePayment = baselineMonthlyPayment base,
                            c_helocPayment = helocPaymentPerMonth params,
                            c_chunk = helocChunkAmount params,
                            c_repeat = rep\<rparr>;
                  start = \<lparr>mortBal = P0 - initialChunk, helocBal = 0 + initialChunk,
                           interestMortgage = 0, interestHeloc = 0, monthCount = 0\<rparr>
              in (case vb_run cap consts start of
                   None \<Rightarrow> None
                 | Some (Inl e) \<Rightarrow> Some (Inl e)
                 | Some (Inr s) \<Rightarrow>
                     let combined = interestMortgage s + interestHeloc s;
                         saved = totalInterestBaseline base - combined;
                         timeSaved = int (baselineMonths base) - int (monthCount s)
                     in Some (Inr
                       \<lparr>baselineMonthlyPayment = baselineMonthlyPayment base,
                        baselineMonths = baselineMonths base,
                        totalInterestBaseline = totalInterestBaseline base,
                        monthsVB = monthCount s,
                        totalInterestMortgageVB = interestMortgage s,
                        totalInterestHelocVB = interestHeloc s,
                        totalInterestVBCombined = combined,
                        vb_interestSaved = saved,
                        vb_timeSavedMonths = timeSaved,
                        vb_yearsSaved = real_of_int timeSaved / 12\<rparr>))))"

(* refinement *)

text \<open>
  A credit line that no month changes: no interest, no payment, no repeated chunk, a
  mortgage that is paid and a line balance of 1/128, which is not above 0.01; and a
  counter that stays below the cap.
\<close>

definition line_stuck :: "month_cap \<Rightarrow> vb_consts \<Rightarrow> vb_state \<Rightarrow> bool" where
  "line_stuck cap c s \<longleftrightarrow>
     (\<forall>m \<le> 2 ^ 53. below_cap m cap) \<and> c_rH c = 0 \<and> c_helocPayment c = 0 \<and> \<not> c_repeat c
     \<and> mortBal s = 0 \<and> helocBal s = 1 / 128 \<and> monthCount s \<le> 2 ^ 53"

section \<open>Unfolding the loops\<close>

text \<open>Each pass through a loop body adds one to the month counter.\<close>

lemma baseline_month_count [simp]:
  "monthsSoFar (baseline_month rM pay s) = Suc (monthsSoFar s)"
  by (simp add: baseline_month_def Let_def)

lemma extra_month_count [simp]:
  "monthsSoFar (extra_month rM pay extra s) = Suc (monthsSoFar s)"
  by (simp add: extra_month_def Let_def)

lemma vb_month_count:
  "vb_month c s = Inr s' \<Longrightarrow> monthCount s' = Suc (monthCount s)"
  by (auto simp: vb_month_def heloc_step_def mortgage_step_def repeat_chunk_def Let_def
           split: sum.splits if_splits)

lemma baseline_loop_step:
  "balance s > 0 \<Longrightarrow> real (monthsSoFar s) < cap
   \<Longrightarrow> baseline_loop cap rM pay s = baseline_loop cap rM pay (baseline_month rM pay s)"
  by (subst baseline_loop.simps) simp

lemma baseline_loop_stop:
  "\<not> (balance s > 0 \<and> real (monthsSoFar s) < cap) \<Longrightarrow> baseline_loop cap rM pay s = s"
  by (subst baseline_loop.simps) auto

lemma extra_loop_step:
  "balance s > 0 \<Longrightarrow> real (monthsSoFar s) < cap
   \<Longrightarrow> extra_loop cap rM pay extra s
       = extra_loop cap rM pay extra (extra_month rM pay extra s)"
  by (subst extra_loop.simps) simp

lemma extra_loop_stop:
  "\<not> (balance s > 0 \<and> real (monthsSoFar s) < cap) \<Longrightarrow> extra_loop cap rM pay extra s = s"
  by (subst extra_loop.simps) auto

lemma vb_loop_step:
  "vb_continue c s \<Longrightarrow> vb_month c s = Inr s' \<Longrightarrow> vb_loop c s = vb_loop c s'"
  by (subst vb_loop.simps) simp

lemma vb_loop_throw:
  "vb_continue c s \<Longrightarrow> vb_month c s = Inl e \<Longrightarrow> vb_loop c s = Inl e"
  by (subst vb_loop.simps) simp

lemma vb_loop_stops: "\<not> vb_continue c s \<Longrightarrow> vb_loop c s = Inr s"
  by (subst vb_loop.simps) simp

text \<open>
  \<^verbatim>\<open>computeBaselineMortgage\<close> reads four fields of its argument, so the object that
  \<^verbatim>\<open>simulateVelocityBanking\<close> builds for it gives the result of the call on the
  parameters themselves.
\<close>

lemma baseline_reads_loan_fields:
  "computeBaselineMortgage
     \<lparr>mortgageBalance = mortgageBalance p, mortgageTermMonths = mortgageTermMonths p,
      mortgageRateAnnual = mortgageRateAnnual p,
      maxMonthsSimulated = Some (capOf (maxMonthsSimulated p))\<rparr>
   = computeBaselineMortgage p"
  by (simp add: computeBaselineMortgage_def capOf_def)

text \<open>With a positive chunk the simulator is its loop, followed by the totals.\<close>

lemma simulateVelocityBanking_run:
  assumes "helocChunkAmount p > 0"
  shows "simulateVelocityBanking p =
    (case vb_loop (vb_consts_of p) (vb_start_of p) of
       Inl e \<Rightarrow> Inl e
     | Inr s \<Rightarrow> Inr
         \<lparr>baselineMonthlyPayment = baselineMonthlyPayment (computeBaselineMortgage p),
          baselineMonths = baselineMonths (computeBaselineMortgage p),
          totalInterestBaseline = totalInterestBaseline (computeBaselineMortgage p),
          monthsVB = monthCount s,
          totalInterestMortgageVB = interestMortgage s,
          totalInterestHelocVB = interestHeloc s,
          totalInterestVBCombined = interestMortgage s + interestHeloc s,
          vb_interestSaved =
            totalInterestBaseline (computeBaselineMortgage p)
              - (interestMortgage s + interestHeloc s),
          vb_timeSavedMonths = int (baselineMonths (computeBaselineMortgage p)) - int (monthCount s),
          vb_yearsSaved =
            real_of_int (int (baselineMonths (computeBaselineMortgage p)) - int (monthCount s)) / 12\<rparr>)"
proof -
  from assms have "\<not> helocChunkAmount p \<le> 0"
    by simp
  then show ?thesis
    unfolding simulateVelocityBanking_def vb_consts_of_def vb_start_of_def Let_def
      baseline_reads_loan_fields
    by (simp only: if_False)
qed

text \<open>
  A loan of 300 over 2 months at 100 percent a month: the payment is 400, the interest
  300 and then 200.
\<close>

lemma example_baseline:
  "computeBaselineMortgage
     \<lparr>mortgageBalance = 300, mortgageTermMonths = 2, mortgageRateAnnual = 12,
      maxMonthsSimulated = None, \<dots> = z\<rparr>
   = \<lparr>baselineMonthlyPayment = 400, baselineMonths = 2, totalInterestBaseline = 500\<rparr>"
  by (simp add: computeBaselineMortgage_def capOf_def Let_def powr_neg_numeral
      baseline_loop.simps baseline_month_def)

section \<open>Degenerate inputs\<close>

text \<open>
  C2. With a chunk amount of 0 or less, \<^verbatim>\<open>simulateVelocityBanking\<close> returns the baseline
  result of the same loan parameters: the months and the mortgage and combined interest
  are the baseline's, the line interest is 0 and nothing is saved. The result does not
  mention the loop.
\<close>

theorem no_chunk_is_baseline:
  assumes "helocChunkAmount p \<le> 0"
  shows "simulateVelocityBanking p = Inr
          \<lparr>baselineMonthlyPayment = baselineMonthlyPayment (computeBaselineMortgage p),
           baselineMonths = baselineMonths (computeBaselineMortgage p),
           totalInterestBaseline = totalInterestBaseline (computeBaselineMortgage p),
           monthsVB = baselineMonths (computeBaselineMortgage p),
           totalInterestMortgageVB = totalInterestBaseline (computeBaselineMortgage p),
           totalInterestHelocVB = 0,
           totalInterestVBCombined = totalInterestBaseline (computeBaselineMortgage p),
           vb_interestSaved = 0,
           vb_timeSavedMonths = 0,
           vb_yearsSaved = 0\<rparr>"
  using assms
  by (simp add: simulateVelocityBanking_def baseline_reads_loan_fields Let_def)

theorem no_chunk_is_baseline_witness:
  "simulateVelocityBanking
     \<lparr>mortgageBalance = 300, mortgageTermMonths = 2, mortgageRateAnnual = 12,
      maxMonthsSimulated = None, helocRateAnnual = 7 / 100, helocChunkAmount = 0,
      helocPaymentPerMonth = 100, repeatChunks = None\<rparr>
   = Inr \<lparr>baselineMonthlyPayment = 400, baselineMonths = 2, totalInterestBaseline = 500,
          monthsVB = 2, totalInterestMortgageVB = 500, totalInterestHelocVB = 0,
          totalInterestVBCombined = 500, vb_interestSaved = 0, vb_timeSavedMonths = 0,
          vb_yearsSaved = 0\<rparr>"
  using no_chunk_is_baseline
    [of "\<lparr>mortgageBalance = 300, mortgageTermMonths = 2, mortgageRateAnnual = 12,
          maxMonthsSimulated = None, helocRateAnnual = 7 / 100, helocChunkAmount = 0,
          helocPaymentPerMonth = 100, repeatChunks = None\<rparr>"]
  by (simp add: example_baseline)

text \<open>
  C6. With a principal or a term of 0 or less, \<^verbatim>\<open>computeBaselineMortgage\<close> and
  \<^verbatim>\<open>simulateExtraPaymentStrategy\<close> return the record of zeros. Neither function has an
  error among its results.
\<close>

theorem degenerate_loan_all_zero:
  "(mortgageBalance p \<le> 0 \<or> mortgageTermMonths p \<le> 0 \<longrightarrow>
      computeBaselineMortgage p =
        \<lparr>baselineMonthlyPayment = 0, baselineMonths = 0, totalInterestBaseline = 0\<rparr>)
   \<and> (mortgageBalance q \<le> 0 \<or> mortgageTermMonths q \<le> 0 \<longrightarrow>
      simulateExtraPaymentStrategy q =
        \<lparr>monthlyPayment = 0, totalMonths = 0, totalInterest = 0\<rparr>)"
  by (simp add: computeBaselineMortgage_def simulateExtraPaymentStrategy_def)

theorem degenerate_loan_all_zero_witness:
  "computeBaselineMortgage
     \<lparr>mortgageBalance = 0, mortgageTermMonths = 360, mortgageRateAnnual = 63 / 1000,
      maxMonthsSimulated = None\<rparr>
   = \<lparr>baselineMonthlyPayment = 0, baselineMonths = 0, totalInterestBaseline = 0\<rparr>
   \<and> simulateExtraPaymentStrategy
     \<lparr>mortgageBalance = 500000, mortgageTermMonths = - 12, mortgageRateAnnual = 63 / 1000,
      maxMonthsSimulated = None, extraPaymentPerMonth = 3000\<rparr>
   = \<lparr>monthlyPayment = 0, totalMonths = 0, totalInterest = 0\<rparr>"
  using degenerate_loan_all_zero
    [of "\<lparr>mortgageBalance = 0, mortgageTermMonths = 360, mortgageRateAnnual = 63 / 1000,
          maxMonthsSimulated = None\<rparr>"
        "\<lparr>mortgageBalance = 500000, mortgageTermMonths = - 12, mortgageRateAnnual = 63 / 1000,
          maxMonthsSimulated = None, extraPaymentPerMonth = 3000\<rparr>"]
  by simp

text \<open>
  C10. With a positive chunk and a mortgage balance of 0 or less, the first chunk is the
  balance itself, the loop condition fails at once, and \<^verbatim>\<open>simulateVelocityBanking\<close>
  returns zero months and zero mortgage, line and combined interest, without an error.
\<close>

theorem no_mortgage_velocity_all_zero:
  assumes "helocChunkAmount p > 0" and "mortgageBalance p \<le> 0"
  shows "simulateVelocityBanking p = Inr
          \<lparr>baselineMonthlyPayment = 0, baselineMonths = 0, totalInterestBaseline = 0,
           monthsVB = 0, totalInterestMortgageVB = 0, totalInterestHelocVB = 0,
           totalInterestVBCombined = 0, vb_interestSaved = 0, vb_timeSavedMonths = 0,
           vb_yearsSaved = 0\<rparr>"
proof -
  from assms(2) have b: "computeBaselineMortgage p =
      \<lparr>baselineMonthlyPayment = 0, baselineMonths = 0, totalInterestBaseline = 0\<rparr>"
    by (simp add: computeBaselineMortgage_def)
  from assms have "\<not> vb_continue (vb_consts_of p) (vb_start_of p)"
    by (simp add: vb_continue_def vb_start_of_def)
  then have "vb_loop (vb_consts_of p) (vb_start_of p) = Inr (vb_start_of p)"
    by (rule vb_loop_stops)
  then show ?thesis
    by (simp add: simulateVelocityBanking_run [OF assms(1)] b vb_start_of_def)
qed

theorem no_mortgage_velocity_all_zero_witness:
  "simulateVelocityBanking
     \<lparr>mortgageBalance = 0, mortgageTermMonths = 300, mortgageRateAnnual = 63 / 1000,
      maxMonthsSimulated = None, helocRateAnnual = 7 / 100, helocChunkAmount = 15000,
      helocPaymentPerMonth = 3000, repeatChunks = Some True\<rparr>
   = Inr \<lparr>baselineMonthlyPayment = 0, baselineMonths = 0, totalInterestBaseline = 0,
          monthsVB = 0, totalInterestMortgageVB = 0, totalInterestHelocVB = 0,
          totalInterestVBCombined = 0, vb_interestSaved = 0, vb_timeSavedMonths = 0,
          vb_yearsSaved = 0\<rparr>"
  using no_mortgage_velocity_all_zero
    [of "\<lparr>mortgageBalance = 0, mortgageTermMonths = 300, mortgageRateAnnual = 63 / 1000,
          maxMonthsSimulated = None, helocRateAnnual = 7 / 100, helocChunkAmount = 15000,
          helocPaymentPerMonth = 3000, repeatChunks = Some True\<rparr>"]
  by simp

section \<open>The extra payment\<close>

text \<open>
  The principal of the regular payment never exceeds the balance, so an extra payment of
  0 is not clamped below 0 and the month is the baseline's.
\<close>

lemma extra_month_zero: "extra_month rM pay 0 s = baseline_month rM pay s"
proof -
  have "min pay (balance s + balance s * rM) - balance s * rM \<le> balance s"
    by simp
  then have "min 0 (balance s - (min pay (balance s + balance s * rM) - balance s * rM)) = 0"
    by simp
  then show ?thesis
    by (simp add: extra_month_def baseline_month_def Let_def)
qed

lemma extra_loop_zero: "extra_loop cap rM pay 0 s = baseline_loop cap rM pay s"
proof (induction cap rM pay s rule: baseline_loop.induct)
  case (1 cap rM pay s)
  show ?case
  proof (cases "balance s > 0 \<and> real (monthsSoFar s) < cap")
    case True
    then have "extra_loop cap rM pay 0 s = extra_loop cap rM pay 0 (baseline_month rM pay s)"
      by (simp add: extra_loop_step extra_month_zero)
    also have "\<dots> = baseline_loop cap rM pay (baseline_month rM pay s)"
      using 1 True by simp
    also have "\<dots> = baseline_loop cap rM pay s"
      using True by (simp add: baseline_loop_step)
    finally show ?thesis .
  next
    case False
    then show ?thesis
      by (simp add: extra_loop_stop baseline_loop_stop)
  qed
qed

text \<open>
  C5. With an extra payment of 0, \<^verbatim>\<open>simulateExtraPaymentStrategy\<close> returns the months and
  the total interest of \<^verbatim>\<open>computeBaselineMortgage\<close> on the same loan, whatever the
  principal, the term, the rate and the cap.
\<close>

theorem zero_extra_is_baseline:
  assumes "extraPaymentPerMonth q = 0"
  shows "totalMonths (simulateExtraPaymentStrategy q) = baselineMonths (computeBaselineMortgage q)
       \<and> totalInterest (simulateExtraPaymentStrategy q)
           = totalInterestBaseline (computeBaselineMortgage q)"
  using assms
  by (simp add: simulateExtraPaymentStrategy_def computeBaselineMortgage_def Let_def
      extra_loop_zero)

theorem zero_extra_is_baseline_witness:
  "totalMonths (simulateExtraPaymentStrategy
     \<lparr>mortgageBalance = 300, mortgageTermMonths = 2, mortgageRateAnnual = 12,
      maxMonthsSimulated = None, extraPaymentPerMonth = 0\<rparr>) = 2
   \<and> totalInterest (simulateExtraPaymentStrategy
     \<lparr>mortgageBalance = 300, mortgageTermMonths = 2, mortgageRateAnnual = 12,
      maxMonthsSimulated = None, extraPaymentPerMonth = 0\<rparr>) = 500"
  using zero_extra_is_baseline
    [of "\<lparr>mortgageBalance = 300, mortgageTermMonths = 2, mortgageRateAnnual = 12,
          maxMonthsSimulated = None, extraPaymentPerMonth = 0\<rparr>"]
  by (simp add: example_baseline)

text \<open>
  C8. With a positive principal and term, the \<^verbatim>\<open>monthlyPayment\<close> of
  \<^verbatim>\<open>simulateExtraPaymentStrategy\<close> is the baseline monthly payment plus the extra
  payment as configured; what the loop clamps in the last month does not enter it.
\<close>

theorem extra_monthly_payment_nominal:
  assumes "mortgageBalance q > 0" and "mortgageTermMonths q > 0"
  shows "monthlyPayment (simulateExtraPaymentStrategy q)
         = baselineMonthlyPayment (computeBaselineMortgage q) + extraPaymentPerMonth q"
  using assms
  by (simp add: computeBaselineMortgage_def simulateExtraPaymentStrategy_def Let_def)

theorem extra_monthly_payment_nominal_witness:
  "monthlyPayment (simulateExtraPaymentStrategy
     \<lparr>mortgageBalance = 300, mortgageTermMonths = 2, mortgageRateAnnual = 12,
      maxMonthsSimulated = None, extraPaymentPerMonth = 250\<rparr>) = 400 + 250"
  using extra_monthly_payment_nominal
    [of "\<lparr>mortgageBalance = 300, mortgageTermMonths = 2, mortgageRateAnnual = 12,
          maxMonthsSimulated = None, extraPaymentPerMonth = 250\<rparr>"]
  by (simp add: example_baseline)

section \<open>The month cap\<close>

lemma count_step_within: "real m < cap \<Longrightarrow> Suc m \<le> nat \<lceil>cap\<rceil>"
  by linarith

lemma baseline_loop_count:
  "monthsSoFar s \<le> nat \<lceil>cap\<rceil> \<Longrightarrow> monthsSoFar (baseline_loop cap rM pay s) \<le> nat \<lceil>cap\<rceil>"
proof (induction cap rM pay s rule: baseline_loop.induct)
  case (1 cap rM pay s)
  show ?case
  proof (cases "balance s > 0 \<and> real (monthsSoFar s) < cap")
    case True
    then have "monthsSoFar (baseline_month rM pay s) \<le> nat \<lceil>cap\<rceil>"
      by (simp add: count_step_within)
    with 1(1) True show ?thesis
      by (simp add: baseline_loop_step)
  next
    case False
    with 1(2) show ?thesis
      by (simp add: baseline_loop_stop)
  qed
qed

lemma extra_loop_count:
  "monthsSoFar s \<le> nat \<lceil>cap\<rceil> \<Longrightarrow> monthsSoFar (extra_loop cap rM pay extra s) \<le> nat \<lceil>cap\<rceil>"
proof (induction cap rM pay extra s rule: extra_loop.induct)
  case (1 cap rM pay extra s)
  show ?case
  proof (cases "balance s > 0 \<and> real (monthsSoFar s) < cap")
    case True
    then have "monthsSoFar (extra_month rM pay extra s) \<le> nat \<lceil>cap\<rceil>"
      by (simp add: count_step_within)
    with 1(1) True show ?thesis
      by (simp add: extra_loop_step)
  next
    case False
    with 1(2) show ?thesis
      by (simp add: extra_loop_stop)
  qed
qed

lemma vb_loop_count:
  "monthCount s \<le> nat \<lceil>c_maxMonths c\<rceil> \<Longrightarrow> vb_loop c s = Inr s'
   \<Longrightarrow> monthCount s' \<le> nat \<lceil>c_maxMonths c\<rceil>"
proof (induction c s rule: vb_loop.induct)
  case (1 c s)
  show ?case
  proof (cases "vb_continue c s")
    case True
    have "\<exists>t. vb_month c s = Inr t"
    proof (cases "vb_month c s")
      case (Inl e)
      with True 1(3) show ?thesis
        by (simp add: vb_loop_throw)
    next
      case (Inr t)
      then show ?thesis
        by simp
    qed
    then obtain t where t: "vb_month c s = Inr t"
      by blast
    with True 1(3) have loop: "vb_loop c t = Inr s'"
      by (simp add: vb_loop_step)
    from True have "Suc (monthCount s) \<le> nat \<lceil>c_maxMonths c\<rceil>"
      by (simp add: vb_continue_def count_step_within)
    with t have "monthCount t \<le> nat \<lceil>c_maxMonths c\<rceil>"
      by (simp add: vb_month_count)
    with 1(1) True t loop show ?thesis
      by simp
  next
    case False
    with 1(2,3) show ?thesis
      by (simp add: vb_loop_stops)
  qed
qed

lemma baseline_months_within:
  "baselineMonths (computeBaselineMortgage p) \<le> nat \<lceil>capOf (maxMonthsSimulated p)\<rceil>"
  by (simp add: computeBaselineMortgage_def Let_def baseline_loop_count)

lemma extra_months_within:
  "totalMonths (simulateExtraPaymentStrategy q) \<le> nat \<lceil>capOf (maxMonthsSimulated q)\<rceil>"
  by (simp add: simulateExtraPaymentStrategy_def Let_def extra_loop_count)

lemma velocity_months_within:
  assumes r: "simulateVelocityBanking v = Inr r"
  shows "monthsVB r \<le> nat \<lceil>capOf (maxMonthsSimulated v)\<rceil>"
proof (cases "helocChunkAmount v \<le> 0")
  case True
  with r have "monthsVB r = baselineMonths (computeBaselineMortgage v)"
    by (auto simp: simulateVelocityBanking_def Let_def baseline_reads_loan_fields)
  with baseline_months_within [of v] show ?thesis
    by simp
next
  case False
  then have run: "0 < helocChunkAmount v"
    by simp
  from r obtain s where s: "vb_loop (vb_consts_of v) (vb_start_of v) = Inr s"
    and m: "monthsVB r = monthCount s"
    by (auto simp: simulateVelocityBanking_run [OF run] split: sum.splits)
  have "monthCount s \<le> nat \<lceil>c_maxMonths (vb_consts_of v)\<rceil>"
    by (rule vb_loop_count [OF _ s]) (simp add: vb_start_of_def)
  with m show ?thesis
    by (simp add: vb_consts_of_def)
qed

text \<open>
  Below a cap of at most \<open>2 ^ 53\<close> the counter is below \<open>2 ^ 53\<close>, where the increment
  is exact; so with such a cap the partial loops are the total ones.
\<close>

lemma count_up_below: "real m < c \<Longrightarrow> c \<le> 2 ^ 53 \<Longrightarrow> count_up m = Suc m"
proof -
  assume "real m < c" and "c \<le> 2 ^ 53"
  then have "real m < 2 ^ 53"
    by simp
  then have "m < 2 ^ 53"
    by (metis of_nat_less_iff of_nat_numeral of_nat_power)
  then show ?thesis
    by (simp add: count_up_def)
qed

lemma baseline_run_finite:
  "c \<le> 2 ^ 53 \<Longrightarrow> baseline_run (Finite c) rM pay s = Some (baseline_loop c rM pay s)"
proof (induction c rM pay s rule: baseline_loop.induct)
  case (1 cap rM pay s)
  show ?case
  proof (cases "balance s > 0 \<and> real (monthsSoFar s) < cap")
    case True
    with 1(2) have "count_up (monthsSoFar s) = Suc (monthsSoFar s)"
      using count_up_below [of "monthsSoFar s" cap] by blast
    then have "baseline_month_sat rM pay s = baseline_month rM pay s"
      by (simp add: baseline_month_sat_def baseline_month_def Let_def)
    with True have "baseline_run (Finite cap) rM pay s
        = baseline_run (Finite cap) rM pay (baseline_month rM pay s)"
      by (subst baseline_run.simps) simp
    with 1 True show ?thesis
      by (simp add: baseline_loop_step)
  next
    case False
    then show ?thesis
      by (subst baseline_run.simps) (auto simp: baseline_loop_stop)
  qed
qed

lemma extra_run_finite:
  "c \<le> 2 ^ 53 \<Longrightarrow> extra_run (Finite c) rM pay extra s = Some (extra_loop c rM pay extra s)"
proof (induction c rM pay extra s rule: extra_loop.induct)
  case (1 cap rM pay extra s)
  show ?case
  proof (cases "balance s > 0 \<and> real (monthsSoFar s) < cap")
    case True
    with 1(2) have "count_up (monthsSoFar s) = Suc (monthsSoFar s)"
      using count_up_below [of "monthsSoFar s" cap] by blast
    then have "extra_month_sat rM pay extra s = extra_month rM pay extra s"
      by (simp add: extra_month_sat_def extra_month_def Let_def)
    with True have "extra_run (Finite cap) rM pay extra s
        = extra_run (Finite cap) rM pay extra (extra_month rM pay extra s)"
      by (subst extra_run.simps) simp
    with 1 True show ?thesis
      by (simp add: extra_loop_step)
  next
    case False
    then show ?thesis
      by (subst extra_run.simps) (auto simp: extra_loop_stop)
  qed
qed

lemma vb_month_sat_cap: "vb_month_sat (c\<lparr>c_maxMonths := m\<rparr>) s = vb_month_sat c s"
proof -
  have "mortgage_step (c\<lparr>c_maxMonths := m\<rparr>) t = mortgage_step c t" for t
    by (simp add: mortgage_step_def Let_def)
  moreover have "heloc_step (c\<lparr>c_maxMonths := m\<rparr>) t = heloc_step c t" for t
    by (simp add: heloc_step_def Let_def)
  moreover have "repeat_chunk (c\<lparr>c_maxMonths := m\<rparr>) t = repeat_chunk c t" for t
    by (simp add: repeat_chunk_def Let_def)
  ultimately show ?thesis
    by (simp add: vb_month_sat_def cong: sum.case_cong)
qed

lemma vb_run_finite_aux:
  "c_maxMonths k \<le> 2 ^ 53 \<Longrightarrow> (\<And>t. vb_month_sat c t = vb_month_sat k t)
   \<Longrightarrow> vb_run (Finite (c_maxMonths k)) c s = Some (vb_loop k s)"
proof (induction k s rule: vb_loop.induct)
  case (1 k s)
  show ?case
  proof (cases "vb_continue k s")
    case True
    then have "real (monthCount s) < c_maxMonths k"
      by (simp add: vb_continue_def)
    with 1(2) have "count_up (monthCount s) = Suc (monthCount s)"
      using count_up_below [of "monthCount s" "c_maxMonths k"] by blast
    then have "vb_month_sat k s = vb_month k s"
      by (simp add: vb_month_sat_def vb_month_def)
    with 1(3) have sat: "vb_month_sat c s = vb_month k s"
      by simp
    show ?thesis
    proof (cases "vb_month k s")
      case (Inl e)
      with True sat show ?thesis
        by (subst vb_run.simps) (simp add: vb_continue_def vb_loop_throw)
    next
      case (Inr s')
      with True sat have "vb_run (Finite (c_maxMonths k)) c s = vb_run (Finite (c_maxMonths k)) c s'"
        by (subst vb_run.simps) (simp add: vb_continue_def)
      with 1 True Inr show ?thesis
        by (simp add: vb_loop_step)
    qed
  next
    case False
    then show ?thesis
      by (subst vb_run.simps) (auto simp: vb_loop_stops vb_continue_def)
  qed
qed

lemma vb_run_finite:
  assumes "cap \<le> 2 ^ 53"
  shows "vb_run (Finite cap) c s = Some (vb_loop (c\<lparr>c_maxMonths := cap\<rparr>) s)"
  using vb_run_finite_aux [of "c\<lparr>c_maxMonths := cap\<rparr>" c s] assms
  by (simp add: vb_month_sat_cap del: power_numeral)

lemma computeBaselineMortgage_finite:
  assumes "anyCapOf maxMonths = Finite c" and "c \<le> 2 ^ 53"
  shows "computeBaselineMortgage_anyCap maxMonths p
         = Some (computeBaselineMortgage (p\<lparr>maxMonthsSimulated := Some c\<rparr>))"
  using assms
  by (simp add: computeBaselineMortgage_anyCap_def computeBaselineMortgage_def Let_def capOf_def
      baseline_run_finite del: power_numeral)

lemma simulateExtraPaymentStrategy_finite:
  assumes "anyCapOf maxMonths = Finite c" and "c \<le> 2 ^ 53"
  shows "simulateExtraPaymentStrategy_anyCap maxMonths q
         = Some (simulateExtraPaymentStrategy (q\<lparr>maxMonthsSimulated := Some c\<rparr>))"
  using assms
  by (simp add: simulateExtraPaymentStrategy_anyCap_def simulateExtraPaymentStrategy_def Let_def
      capOf_def extra_run_finite del: power_numeral)

lemma simulateVelocityBanking_finite:
  assumes "anyCapOf maxMonths = Finite c" and "c \<le> 2 ^ 53"
  shows "simulateVelocityBanking_anyCap maxMonths v
         = Some (simulateVelocityBanking (v\<lparr>maxMonthsSimulated := Some c\<rparr>))"
proof -
  have cap: "anyCapOf (Some (Finite c)) = Finite c"
    by (simp add: anyCapOf_def)
  have base: "computeBaselineMortgage_anyCap (Some (Finite c)) v
      = Some (computeBaselineMortgage (v\<lparr>maxMonthsSimulated := Some c\<rparr>))"
    by (rule computeBaselineMortgage_finite [OF cap assms(2)])
  have same: "computeBaselineMortgage
       \<lparr>mortgageBalance = mortgageBalance v, mortgageTermMonths = mortgageTermMonths v,
        mortgageRateAnnual = mortgageRateAnnual v, maxMonthsSimulated = Some c\<rparr>
      = computeBaselineMortgage (v\<lparr>maxMonthsSimulated := Some c\<rparr>)"
    using baseline_reads_loan_fields [of "v\<lparr>maxMonthsSimulated := Some c\<rparr>"]
    by (simp add: capOf_def)
  show ?thesis
    unfolding simulateVelocityBanking_anyCap_def simulateVelocityBanking_def Let_def
    by (simp add: assms(1) base same capOf_def vb_run_finite [OF assms(2)] split: sum.splits
        del: power_numeral)
qed

text \<open>
  C9, as amended. When \<^verbatim>\<open>maxMonthsSimulated\<close> is a whole number \<open>n\<close> of months from 0
  to \<open>2 ^ 53\<close> (absent, it is 1200), the calls of \<^verbatim>\<open>computeBaselineMortgage\<close>,
  \<^verbatim>\<open>simulateExtraPaymentStrategy\<close> and \<^verbatim>\<open>simulateVelocityBanking\<close> return (the last one a
  result or the error), and the month count of a result is at most \<open>n\<close>. Each pass of
  a loop adds one to its counter, which starts at 0, so the loop makes at most \<open>n\<close>
  passes.
\<close>

theorem loops_bounded_by_cap:
  assumes "anyCapOf maxMonths = Finite (real n)" and "n \<le> 2 ^ 53"
  shows "(\<exists>r. computeBaselineMortgage_anyCap maxMonths p = Some r \<and> baselineMonths r \<le> n)
       \<and> (\<exists>r. simulateExtraPaymentStrategy_anyCap maxMonths q = Some r \<and> totalMonths r \<le> n)
       \<and> (\<exists>x. simulateVelocityBanking_anyCap maxMonths v = Some x
             \<and> (\<forall>r. x = Inr r \<longrightarrow> monthsVB r \<le> n))"
proof -
  from assms(2) have le: "real n \<le> 2 ^ 53"
    by (metis of_nat_le_iff of_nat_numeral of_nat_power)
  have "baselineMonths (computeBaselineMortgage (p\<lparr>maxMonthsSimulated := Some (real n)\<rparr>)) \<le> n"
    using baseline_months_within [of "p\<lparr>maxMonthsSimulated := Some (real n)\<rparr>"]
    by (simp add: capOf_def)
  moreover
  have "totalMonths (simulateExtraPaymentStrategy (q\<lparr>maxMonthsSimulated := Some (real n)\<rparr>)) \<le> n"
    using extra_months_within [of "q\<lparr>maxMonthsSimulated := Some (real n)\<rparr>"]
    by (simp add: capOf_def)
  moreover
  have "monthsVB r \<le> n"
    if "simulateVelocityBanking (v\<lparr>maxMonthsSimulated := Some (real n)\<rparr>) = Inr r" for r
    using velocity_months_within [OF that] by (simp add: capOf_def)
  ultimately show ?thesis
    by (simp add: computeBaselineMortgage_finite [OF assms(1) le]
        simulateExtraPaymentStrategy_finite [OF assms(1) le]
        simulateVelocityBanking_finite [OF assms(1) le] del: power_numeral)
qed

text \<open>
  A loan of 300 over 12 months without interest, cut off by a cap of 2 months.
\<close>

lemma example_capped_baseline:
  "computeBaselineMortgage
     \<lparr>mortgageBalance = 300, mortgageTermMonths = 12, mortgageRateAnnual = 0,
      maxMonthsSimulated = Some 2, \<dots> = z\<rparr>
   = \<lparr>baselineMonthlyPayment = 25, baselineMonths = 2, totalInterestBaseline = 0\<rparr>"
  by (simp add: computeBaselineMortgage_def capOf_def Let_def baseline_loop.simps
      baseline_month_def)

lemma example_capped_extra:
  "simulateExtraPaymentStrategy
     \<lparr>mortgageBalance = 300, mortgageTermMonths = 12, mortgageRateAnnual = 0,
      maxMonthsSimulated = Some 2, extraPaymentPerMonth = 10\<rparr>
   = \<lparr>monthlyPayment = 35, totalMonths = 2, totalInterest = 0\<rparr>"
  by (simp add: simulateExtraPaymentStrategy_def capOf_def Let_def extra_loop.simps
      extra_month_def)

lemma example_capped_velocity:
  "simulateVelocityBanking
     \<lparr>mortgageBalance = 300, mortgageTermMonths = 12, mortgageRateAnnual = 0,
      maxMonthsSimulated = Some 2, helocRateAnnual = 0, helocChunkAmount = 100,
      helocPaymentPerMonth = 10, repeatChunks = None\<rparr>
   = Inr \<lparr>baselineMonthlyPayment = 25, baselineMonths = 2, totalInterestBaseline = 0,
          monthsVB = 2, totalInterestMortgageVB = 0, totalInterestHelocVB = 0,
          totalInterestVBCombined = 0, vb_interestSaved = 0, vb_timeSavedMonths = 0,
          vb_yearsSaved = 0\<rparr>"
  by (simp add: simulateVelocityBanking_def computeBaselineMortgage_def capOf_def flagOf_def
      Let_def baseline_loop.simps baseline_month_def vb_loop.simps vb_continue_def vb_month_def
      mortgage_step_def heloc_step_def repeat_chunk_def)

theorem loops_bounded_by_cap_witness:
  "computeBaselineMortgage_anyCap (Some (Finite 2))
     \<lparr>mortgageBalance = 300, mortgageTermMonths = 12, mortgageRateAnnual = 0,
      maxMonthsSimulated = None\<rparr>
     = Some \<lparr>baselineMonthlyPayment = 25, baselineMonths = 2, totalInterestBaseline = 0\<rparr>
   \<and> simulateExtraPaymentStrategy_anyCap (Some (Finite 2))
     \<lparr>mortgageBalance = 300, mortgageTermMonths = 12, mortgageRateAnnual = 0,
      maxMonthsSimulated = None, extraPaymentPerMonth = 10\<rparr>
     = Some \<lparr>monthlyPayment = 35, totalMonths = 2, totalInterest = 0\<rparr>
   \<and> simulateVelocityBanking_anyCap (Some (Finite 2))
     \<lparr>mortgageBalance = 300, mortgageTermMonths = 12, mortgageRateAnnual = 0,
      maxMonthsSimulated = None, helocRateAnnual = 0, helocChunkAmount = 100,
      helocPaymentPerMonth = 10, repeatChunks = None\<rparr>
     = Some (Inr \<lparr>baselineMonthlyPayment = 25, baselineMonths = 2, totalInterestBaseline = 0,
          monthsVB = 2, totalInterestMortgageVB = 0, totalInterestHelocVB = 0,
          totalInterestVBCombined = 0, vb_interestSaved = 0, vb_timeSavedMonths = 0,
          vb_yearsSaved = 0\<rparr>)
   \<and> (2::nat) \<le> 2 ^ 53"
proof -
  have cap: "anyCapOf (Some (Finite 2)) = Finite (real 2)"
    by (simp add: anyCapOf_def)
  have le: "(2::nat) \<le> 2 ^ 53"
    by simp
  have le': "(2::real) \<le> 2 ^ 53"
    by simp
  have cap': "anyCapOf (Some (Finite 2)) = Finite 2"
    by (simp add: anyCapOf_def)
  note bound = loops_bounded_by_cap [OF cap le]
  have "computeBaselineMortgage_anyCap (Some (Finite 2))
     \<lparr>mortgageBalance = 300, mortgageTermMonths = 12, mortgageRateAnnual = 0,
      maxMonthsSimulated = None\<rparr>
     = Some \<lparr>baselineMonthlyPayment = 25, baselineMonths = 2, totalInterestBaseline = 0\<rparr>"
    by (simp add: computeBaselineMortgage_finite [OF cap' le'] example_capped_baseline)
  moreover have "simulateExtraPaymentStrategy_anyCap (Some (Finite 2))
     \<lparr>mortgageBalance = 300, mortgageTermMonths = 12, mortgageRateAnnual = 0,
      maxMonthsSimulated = None, extraPaymentPerMonth = 10\<rparr>
     = Some \<lparr>monthlyPayment = 35, totalMonths = 2, totalInterest = 0\<rparr>"
    by (simp add: simulateExtraPaymentStrategy_finite [OF cap' le'] example_capped_extra)
  moreover have "simulateVelocityBanking_anyCap (Some (Finite 2))
     \<lparr>mortgageBalance = 300, mortgageTermMonths = 12, mortgageRateAnnual = 0,
      maxMonthsSimulated = None, helocRateAnnual = 0, helocChunkAmount = 100,
      helocPaymentPerMonth = 10, repeatChunks = None\<rparr>
     = Some (Inr \<lparr>baselineMonthlyPayment = 25, baselineMonths = 2, totalInterestBaseline = 0,
          monthsVB = 2, totalInterestMortgageVB = 0, totalInterestHelocVB = 0,
          totalInterestVBCombined = 0, vb_interestSaved = 0, vb_timeSavedMonths = 0,
          vb_yearsSaved = 0\<rparr>)"
    by (simp add: simulateVelocityBanking_finite [OF cap' le'] example_capped_velocity)
  ultimately show ?thesis
    using bound le by simp
qed

text \<open>
  Without such a cap a call need not return. A stuck line stays stuck for another month,
  and the loop goes on from it.
\<close>

lemma count_up_le: "m \<le> 2 ^ 53 \<Longrightarrow> count_up m \<le> 2 ^ 53"
  by (simp add: count_up_def del: power_numeral)

lemma line_stuck_month:
  assumes "line_stuck cap c s"
  shows "\<exists>s'. vb_month_sat c s = Inr s' \<and> line_stuck cap c s'"
proof -
  let ?s' = "s\<lparr>monthCount := count_up (monthCount s), helocBal := 1 / 128,
      interestHeloc := interestHeloc s + 0\<rparr>"
  from assms have "vb_month_sat c s = Inr ?s'"
    by (simp add: line_stuck_def vb_month_sat_def mortgage_step_def heloc_step_def
        repeat_chunk_def Let_def del: power_numeral)
  moreover from assms have "line_stuck cap c ?s'"
    by (simp add: line_stuck_def count_up_le del: power_numeral)
  ultimately show ?thesis
    by blast
qed

lemma line_stuck_continues:
  assumes "line_stuck cap c s"
  shows "(mortBal s > 0 \<or> helocBal s > 0) \<and> below_cap (monthCount s) cap"
  using assms by (simp add: line_stuck_def del: power_numeral)

lemma line_stuck_never_returns:
  assumes "line_stuck cap c s"
  shows "vb_run cap c s = None"
proof (rule ccontr)
  assume "vb_run cap c s \<noteq> None"
  then obtain y where y: "vb_run cap c s = Some y"
    by blast
  have "\<not> line_stuck cap c s"
  proof (rule vb_run.raw_induct [where P = "\<lambda>cap c s y. \<not> line_stuck cap c s", OF _ y])
    fix f cap c s and y :: "error + vb_state"
    assume ih: "\<And>cap c s y. f cap c s = Some y \<Longrightarrow> \<not> line_stuck cap c s"
      and step: "(if (0 < mortBal s \<or> 0 < helocBal s) \<and> below_cap (monthCount s) cap
          then case vb_month_sat c s of Inl e \<Rightarrow> Some (Inl e) | Inr s' \<Rightarrow> f cap c s'
          else Some (Inr s)) = Some y"
    show "\<not> line_stuck cap c s"
    proof
      assume stuck: "line_stuck cap c s"
      from line_stuck_month [OF stuck] obtain s' where
        month: "vb_month_sat c s = Inr s'" and stuck': "line_stuck cap c s'"
        by blast
      from step line_stuck_continues [OF stuck] month have "f cap c s' = Some y"
        by simp
      with ih stuck' show False
        by blast
    qed
  qed
  with assms show False
    by blast
qed

text \<open>
  A mortgage of 1/128 over one month, paid off at once by a chunk of 1/128 from a line
  without interest and without payments. The baseline loop ends after its first month;
  the velocity loop starts from the stuck line.
\<close>

lemma stuck_line_baseline:
  assumes "below_cap 0 (anyCapOf maxMonths)"
  shows "computeBaselineMortgage_anyCap maxMonths
     \<lparr>mortgageBalance = 1 / 128, mortgageTermMonths = 1, mortgageRateAnnual = 0,
      maxMonthsSimulated = None, helocRateAnnual = 0, helocChunkAmount = 1 / 128,
      helocPaymentPerMonth = 0, repeatChunks = None\<rparr>
     = Some \<lparr>baselineMonthlyPayment = 1 / 128, baselineMonths = 1, totalInterestBaseline = 0\<rparr>"
proof -
  let ?s0 = "\<lparr>balance = 1 / 128, interestSoFar = 0, monthsSoFar = 0\<rparr>"
  let ?s1 = "\<lparr>balance = 0, interestSoFar = 0, monthsSoFar = 1\<rparr>"
  have m: "baseline_month_sat 0 (1 / 128) ?s0 = ?s1"
    by (simp add: baseline_month_sat_def baseline_month_def count_up_def Let_def)
  have "baseline_run (anyCapOf maxMonths) 0 (1 / 128) ?s1 = Some ?s1"
    by (subst baseline_run.simps) simp
  with assms m have "baseline_run (anyCapOf maxMonths) 0 (1 / 128) ?s0 = Some ?s1"
    by (subst baseline_run.simps) simp
  then show ?thesis
    by (simp add: computeBaselineMortgage_anyCap_def Let_def)
qed

lemma stuck_line_never_returns:
  assumes "\<forall>m \<le> 2 ^ 53. below_cap m cap"
  shows "simulateVelocityBanking_anyCap (Some cap)
     \<lparr>mortgageBalance = 1 / 128, mortgageTermMonths = 1, mortgageRateAnnual = 0,
      maxMonthsSimulated = None, helocRateAnnual = 0, helocChunkAmount = 1 / 128,
      helocPaymentPerMonth = 0, repeatChunks = None\<rparr> = None"
proof -
  have cap: "anyCapOf (Some cap) = cap"
    by (simp add: anyCapOf_def)
  from assms have "below_cap 0 (anyCapOf (Some cap))"
    by (simp add: cap)
  note base = stuck_line_baseline [OF this]
  let ?c = "\<lparr>c_maxMonths = 0, c_rM = 0, c_rH = 0, c_baselinePayment = 1 / 128,
      c_helocPayment = 0, c_chunk = 1 / 128, c_repeat = False\<rparr>"
  let ?s = "\<lparr>mortBal = 0, helocBal = 1 / 128, interestMortgage = 0, interestHeloc = 0,
      monthCount = 0\<rparr>"
  from assms have "line_stuck cap ?c ?s"
    by (simp add: line_stuck_def del: power_numeral)
  then have "vb_run cap ?c ?s = None"
    by (rule line_stuck_never_returns)
  then show ?thesis
    using base
    by (simp add: simulateVelocityBanking_anyCap_def Let_def cap flagOf_def)
qed

text \<open>
  So the bound needs a finite cap that the counter can reach: for this loan with a cap of
  \<^verbatim>\<open>Infinity\<close>, and with the cap \<open>2 ^ 53 + 2\<close>, at which the counter never arrives,
  \<^verbatim>\<open>simulateVelocityBanking\<close> does not return. Every operation of these runs is exact in
  double precision (1/128 is a power of two, and the other operands are 0).
\<close>

theorem unbounded_cap_never_returns:
  "simulateVelocityBanking_anyCap (Some Infinity)
     \<lparr>mortgageBalance = 1 / 128, mortgageTermMonths = 1, mortgageRateAnnual = 0,
      maxMonthsSimulated = None, helocRateAnnual = 0, helocChunkAmount = 1 / 128,
      helocPaymentPerMonth = 0, repeatChunks = None\<rparr> = None
   \<and> simulateVelocityBanking_anyCap (Some (Finite (2 ^ 53 + 2)))
     \<lparr>mortgageBalance = 1 / 128, mortgageTermMonths = 1, mortgageRateAnnual = 0,
      maxMonthsSimulated = None, helocRateAnnual = 0, helocChunkAmount = 1 / 128,
      helocPaymentPerMonth = 0, repeatChunks = None\<rparr> = None"
proof -
  have "\<forall>m \<le> 2 ^ 53. below_cap m Infinity"
    by simp
  moreover have "\<forall>m \<le> 2 ^ 53. below_cap m (Finite (2 ^ 53 + 2))"
  proof (intro allI impI)
    fix m :: nat
    assume "m \<le> 2 ^ 53"
    then have "real m \<le> 2 ^ 53"
      by (metis of_nat_le_iff of_nat_numeral of_nat_power)
    then show "below_cap m (Finite (2 ^ 53 + 2))"
      by simp
  qed
  ultimately show ?thesis
    using stuck_line_never_returns [of Infinity] stuck_line_never_returns [of "Finite (2 ^ 53 + 2)"]
    by blast
qed

section \<open>The comparison record\<close>

text \<open>
  Two runs of \<^verbatim>\<open>simulateAllStrategies\<close>. In the first, the loan of 300 over 2 months at
  100 percent a month, with a free credit line, a chunk of 200, a payment of 100 and a
  return of 1000 percent a month: velocity banking saves 400 of interest, the extra
  payment 100, and investing gains 1000.
\<close>

lemma example_baseline_capped:
  "computeBaselineMortgage
     \<lparr>mortgageBalance = 300, mortgageTermMonths = 2, mortgageRateAnnual = 12,
      maxMonthsSimulated = Some 1200\<rparr>
   = \<lparr>baselineMonthlyPayment = 400, baselineMonths = 2, totalInterestBaseline = 500\<rparr>"
  by (simp add: computeBaselineMortgage_def capOf_def Let_def powr_neg_numeral
      baseline_loop.simps baseline_month_def)

lemma example_extra:
  "simulateExtraPaymentStrategy
     \<lparr>mortgageBalance = 300, mortgageTermMonths = 2, mortgageRateAnnual = 12,
      maxMonthsSimulated = Some 1200, extraPaymentPerMonth = 100\<rparr>
   = \<lparr>monthlyPayment = 500, totalMonths = 2, totalInterest = 400\<rparr>"
  by (simp add: simulateExtraPaymentStrategy_def capOf_def Let_def powr_neg_numeral
      extra_loop.simps extra_month_def)

lemma example_velocity:
  "simulateVelocityBanking
     \<lparr>mortgageBalance = 300, mortgageTermMonths = 2, mortgageRateAnnual = 12,
      maxMonthsSimulated = Some 1200, helocRateAnnual = 0, helocChunkAmount = 200,
      helocPaymentPerMonth = 100, repeatChunks = Some False\<rparr>
   = Inr \<lparr>baselineMonthlyPayment = 400, baselineMonths = 2, totalInterestBaseline = 500,
          monthsVB = 2, totalInterestMortgageVB = 100, totalInterestHelocVB = 0,
          totalInterestVBCombined = 100, vb_interestSaved = 400, vb_timeSavedMonths = 0,
          vb_yearsSaved = 0\<rparr>"
  by (simp add: simulateVelocityBanking_def example_baseline_capped capOf_def flagOf_def
      Let_def vb_loop.simps vb_continue_def vb_month_def
      mortgage_step_def heloc_step_def repeat_chunk_def)

lemma example_investment:
  "simulateInvestmentStrategy
     \<lparr>investmentTermMonths = 2, inv_extraPaymentPerMonth = 100,
      inv_investmentReturnAnnual = 120, baselineInterest = 500, bestPaydownInterest = 100\<rparr>
   = \<lparr>inv_totalMonths = 2, totalInvested = 200, totalValue = 1200, investmentGains = 1000,
      netBenefit = 600\<rparr>"
  by (simp add: simulateInvestmentStrategy_def Let_def invest_loop.simps)

lemma example_report:
  "simulateAllStrategies
     \<lparr>mortgageBalance = 300, mortgageTermMonths = 2, mortgageRateAnnual = 12,
      maxMonthsSimulated = None, helocRateAnnual = 0, helocChunkAmount = 200,
      helocPaymentPerMonth = 100, repeatChunks = None, investmentReturnAnnual = Some 120\<rparr>
   = Inr
      \<lparr>baseline = \<lparr>monthlyPayment = 400, totalMonths = 2, totalInterest = 500\<rparr>,
       extraPayment = \<lparr>monthlyPayment = 500, totalMonths = 2, totalInterest = 400\<rparr>,
       velocity = \<lparr>vel_totalMonths = 2, vel_totalInterest = 100, mortgageInterest = 100,
                   helocInterest = 0\<rparr>,
       investment = \<lparr>inv_totalMonths = 2, totalInvested = 200, totalValue = 1200,
                     investmentGains = 1000, netBenefit = 600\<rparr>,
       bestPaydownStrategy =
         \<lparr>name = ''Velocity Banking'',
          data = VelocityData \<lparr>vel_totalMonths = 2, vel_totalInterest = 100,
                   mortgageInterest = 100, helocInterest = 0\<rparr>,
          comparison = PaydownComparison
                   \<lparr>interestSaved = 400, timeSavedMonths = 0, yearsSaved = 0\<rparr>,
          color = ''velocity''\<rparr>,
       bestOverallStrategy =
         \<lparr>name = ''Investment Strategy'',
          data = InvestmentData \<lparr>inv_totalMonths = 2, totalInvested = 200, totalValue = 1200,
                     investmentGains = 1000, netBenefit = 600\<rparr>,
          comparison = InvestmentComparison 600,
          color = ''investment'', kind = ''investment''\<rparr>,
       comparisons =
         \<lparr>extraVsBaseline = \<lparr>interestSaved = 100, timeSavedMonths = 0, yearsSaved = 0\<rparr>,
          velocityVsBaseline = \<lparr>interestSaved = 400, timeSavedMonths = 0, yearsSaved = 0\<rparr>,
          velocityVsExtra = \<lparr>interestSaved = 300, timeSavedMonths = 0, yearsSaved = 0\<rparr>,
          investmentVsBestPaydown = 600\<rparr>\<rparr>"
  by (simp add: simulateAllStrategies_def Let_def capOf_def flagOf_def rateOf_def orZero_def
      example_baseline_capped example_extra example_velocity example_investment)

text \<open>
  In the second nothing bears interest: a loan of 300 over 3 months, a chunk of 200 and a
  payment of 50. Both paydown strategies save 0 of interest and investing gains 0.
\<close>

lemma tie_baseline:
  "computeBaselineMortgage
     \<lparr>mortgageBalance = 300, mortgageTermMonths = 3, mortgageRateAnnual = 0,
      maxMonthsSimulated = Some 1200\<rparr>
   = \<lparr>baselineMonthlyPayment = 100, baselineMonths = 3, totalInterestBaseline = 0\<rparr>"
  by (simp add: computeBaselineMortgage_def capOf_def Let_def
      baseline_loop.simps baseline_month_def)

lemma tie_extra:
  "simulateExtraPaymentStrategy
     \<lparr>mortgageBalance = 300, mortgageTermMonths = 3, mortgageRateAnnual = 0,
      maxMonthsSimulated = Some 1200, extraPaymentPerMonth = 50\<rparr>
   = \<lparr>monthlyPayment = 150, totalMonths = 2, totalInterest = 0\<rparr>"
  by (simp add: simulateExtraPaymentStrategy_def capOf_def Let_def
      extra_loop.simps extra_month_def)

lemma tie_velocity:
  "simulateVelocityBanking
     \<lparr>mortgageBalance = 300, mortgageTermMonths = 3, mortgageRateAnnual = 0,
      maxMonthsSimulated = Some 1200, helocRateAnnual = 0, helocChunkAmount = 200,
      helocPaymentPerMonth = 50, repeatChunks = Some False\<rparr>
   = Inr \<lparr>baselineMonthlyPayment = 100, baselineMonths = 3, totalInterestBaseline = 0,
          monthsVB = 4, totalInterestMortgageVB = 0, totalInterestHelocVB = 0,
          totalInterestVBCombined = 0, vb_interestSaved = 0, vb_timeSavedMonths = - 1,
          vb_yearsSaved = - 1 / 12\<rparr>"
  by (simp add: simulateVelocityBanking_def tie_baseline capOf_def flagOf_def
      Let_def vb_loop.simps vb_continue_def vb_month_def
      mortgage_step_def heloc_step_def repeat_chunk_def)

lemma tie_investment:
  "simulateInvestmentStrategy
     \<lparr>investmentTermMonths = 2, inv_extraPaymentPerMonth = 50,
      inv_investmentReturnAnnual = 0, baselineInterest = 0, bestPaydownInterest = 0\<rparr>
   = \<lparr>inv_totalMonths = 2, totalInvested = 100, totalValue = 100, investmentGains = 0,
      netBenefit = 0\<rparr>"
  by (simp add: simulateInvestmentStrategy_def Let_def invest_loop.simps)

lemma tie_report:
  "simulateAllStrategies
     \<lparr>mortgageBalance = 300, mortgageTermMonths = 3, mortgageRateAnnual = 0,
      maxMonthsSimulated = None, helocRateAnnual = 0, helocChunkAmount = 200,
      helocPaymentPerMonth = 50, repeatChunks = None, investmentReturnAnnual = None\<rparr>
   = Inr
      \<lparr>baseline = \<lparr>monthlyPayment = 100, totalMonths = 3, totalInterest = 0\<rparr>,
       extraPayment = \<lparr>monthlyPayment = 150, totalMonths = 2, totalInterest = 0\<rparr>,
       velocity = \<lparr>vel_totalMonths = 4, vel_totalInterest = 0, mortgageInterest = 0,
                   helocInterest = 0\<rparr>,
       investment = \<lparr>inv_totalMonths = 2, totalInvested = 100, totalValue = 100,
                     investmentGains = 0, netBenefit = 0\<rparr>,
       bestPaydownStrategy =
         \<lparr>name = ''Extra Payment'',
          data = ExtraData \<lparr>monthlyPayment = 150, totalMonths = 2, totalInterest = 0\<rparr>,
          comparison = PaydownComparison
                   \<lparr>interestSaved = 0, timeSavedMonths = 1, yearsSaved = 1 / 12\<rparr>,
          color = ''extra''\<rparr>,
       bestOverallStrategy =
         \<lparr>name = ''Extra Payment'',
          data = ExtraData \<lparr>monthlyPayment = 150, totalMonths = 2, totalInterest = 0\<rparr>,
          comparison = PaydownComparison
                   \<lparr>interestSaved = 0, timeSavedMonths = 1, yearsSaved = 1 / 12\<rparr>,
          color = ''extra'', kind = ''paydown''\<rparr>,
       comparisons =
         \<lparr>extraVsBaseline = \<lparr>interestSaved = 0, timeSavedMonths = 1, yearsSaved = 1 / 12\<rparr>,
          velocityVsBaseline = \<lparr>interestSaved = 0, timeSavedMonths = - 1, yearsSaved = - 1 / 12\<rparr>,
          velocityVsExtra = \<lparr>interestSaved = 0, timeSavedMonths = - 2, yearsSaved = - 2 / 12\<rparr>,
          investmentVsBestPaydown = 0\<rparr>\<rparr>"
  by (simp add: simulateAllStrategies_def Let_def capOf_def flagOf_def rateOf_def orZero_def
      tie_baseline tie_extra tie_velocity tie_investment)

text \<open>
  C7. In every report that \<^verbatim>\<open>simulateAllStrategies\<close> returns, the comparison
  \<^verbatim>\<open>velocityVsExtra\<close> is made of differences of the two strategy results of the same
  report: the interest saved is the total interest of the extra payment minus that of
  velocity banking, the months saved are the months of the extra payment minus those of
  velocity banking, and the years saved are the months saved over 12.
\<close>

theorem velocity_vs_extra_derived:
  assumes "simulateAllStrategies p = Inr r"
  shows "interestSaved (velocityVsExtra (comparisons r))
           = totalInterest (extraPayment r) - vel_totalInterest (velocity r)
       \<and> timeSavedMonths (velocityVsExtra (comparisons r))
           = int (totalMonths (extraPayment r)) - int (vel_totalMonths (velocity r))
       \<and> yearsSaved (velocityVsExtra (comparisons r))
           = real_of_int (timeSavedMonths (velocityVsExtra (comparisons r))) / 12"
  using assms
  by (auto simp: simulateAllStrategies_def Let_def split: sum.splits)

theorem velocity_vs_extra_derived_witness:
  "\<exists>r. simulateAllStrategies
         \<lparr>mortgageBalance = 300, mortgageTermMonths = 3, mortgageRateAnnual = 0,
          maxMonthsSimulated = None, helocRateAnnual = 0, helocChunkAmount = 200,
          helocPaymentPerMonth = 50, repeatChunks = None, investmentReturnAnnual = None\<rparr> = Inr r
     \<and> totalMonths (extraPayment r) = 2 \<and> vel_totalMonths (velocity r) = 4
     \<and> interestSaved (velocityVsExtra (comparisons r))
           = totalInterest (extraPayment r) - vel_totalInterest (velocity r)
     \<and> timeSavedMonths (velocityVsExtra (comparisons r)) = 2 - 4
     \<and> yearsSaved (velocityVsExtra (comparisons r)) = (2 - 4) / 12"
  using velocity_vs_extra_derived [OF tie_report] tie_report
  by simp

text \<open>
  C3. In every report that \<^verbatim>\<open>simulateAllStrategies\<close> returns, the best paydown strategy
  is Velocity Banking exactly when the interest saved of \<^verbatim>\<open>velocityVsBaseline\<close> is greater
  than that of \<^verbatim>\<open>extraVsBaseline\<close>, and Extra Payment otherwise, also on a tie; the best
  overall strategy is the investment exactly when its \<^verbatim>\<open>netBenefit\<close> is greater than 0,
  and the best paydown strategy otherwise, also at a \<^verbatim>\<open>netBenefit\<close> of 0.
\<close>

theorem best_strategy_selection:
  assumes "simulateAllStrategies p = Inr r"
  shows "(name (bestPaydownStrategy r) = ''Velocity Banking'' \<longleftrightarrow>
            interestSaved (velocityVsBaseline (comparisons r))
              > interestSaved (extraVsBaseline (comparisons r)))
       \<and> (name (bestPaydownStrategy r) = ''Extra Payment'' \<longleftrightarrow>
            \<not> interestSaved (velocityVsBaseline (comparisons r))
              > interestSaved (extraVsBaseline (comparisons r)))
       \<and> bestPaydownStrategy r =
           (if interestSaved (velocityVsBaseline (comparisons r))
                 > interestSaved (extraVsBaseline (comparisons r))
            then \<lparr>name = ''Velocity Banking'', data = VelocityData (velocity r),
                  comparison = PaydownComparison (velocityVsBaseline (comparisons r)),
                  color = ''velocity''\<rparr>
            else \<lparr>name = ''Extra Payment'', data = ExtraData (extraPayment r),
                  comparison = PaydownComparison (extraVsBaseline (comparisons r)),
                  color = ''extra''\<rparr>)
       \<and> (name (bestOverallStrategy r) = ''Investment Strategy'' \<longleftrightarrow>
            netBenefit (investment r) > 0)
       \<and> bestOverallStrategy r =
           (if netBenefit (investment r) > 0
            then \<lparr>name = ''Investment Strategy'', data = InvestmentData (investment r),
                  comparison = InvestmentComparison (netBenefit (investment r)),
                  color = ''investment'', kind = ''investment''\<rparr>
            else \<lparr>name = name (bestPaydownStrategy r), data = data (bestPaydownStrategy r),
                  comparison = comparison (bestPaydownStrategy r),
                  color = color (bestPaydownStrategy r), kind = ''paydown''\<rparr>)"
  using assms
  by (auto simp: simulateAllStrategies_def Let_def split: sum.splits)

theorem best_strategy_selection_witness:
  "(\<exists>r. simulateAllStrategies
         \<lparr>mortgageBalance = 300, mortgageTermMonths = 2, mortgageRateAnnual = 12,
          maxMonthsSimulated = None, helocRateAnnual = 0, helocChunkAmount = 200,
          helocPaymentPerMonth = 100, repeatChunks = None, investmentReturnAnnual = Some 120\<rparr>
        = Inr r
     \<and> interestSaved (velocityVsBaseline (comparisons r)) = 400
     \<and> interestSaved (extraVsBaseline (comparisons r)) = 100
     \<and> name (bestPaydownStrategy r) = ''Velocity Banking''
     \<and> netBenefit (investment r) = 600
     \<and> name (bestOverallStrategy r) = ''Investment Strategy'')
   \<and> (\<exists>r. simulateAllStrategies
         \<lparr>mortgageBalance = 300, mortgageTermMonths = 3, mortgageRateAnnual = 0,
          maxMonthsSimulated = None, helocRateAnnual = 0, helocChunkAmount = 200,
          helocPaymentPerMonth = 50, repeatChunks = None, investmentReturnAnnual = None\<rparr> = Inr r
     \<and> interestSaved (velocityVsBaseline (comparisons r)) = 0
     \<and> interestSaved (extraVsBaseline (comparisons r)) = 0
     \<and> name (bestPaydownStrategy r) = ''Extra Payment''
     \<and> netBenefit (investment r) = 0
     \<and> name (bestOverallStrategy r) = ''Extra Payment''
     \<and> kind (bestOverallStrategy r) = ''paydown'')"
  using best_strategy_selection [OF example_report] best_strategy_selection [OF tie_report]
    example_report tie_report
  by simp

end
